theory Spec2Isabelle
  imports Main "HOL-Library.Sublist"
begin

section \<open>JavaScript values as the gateway sees them\<close>

text \<open>
  The values of \<^verbatim>\<open>src/src/RabbitGateway.js\<close> that the protocol logic inspects are the
  results of \<^verbatim>\<open>JSON.parse\<close> and the strings and numbers the gateway builds itself.
  \<open>JObj\<close> lists the own properties of an object; \<open>undefined\<close> is \<open>None\<close> of
  \<open>json option\<close>.

  A Number is represented by the text that ToString yields for it (\<^verbatim>\<open>401\<close>, \<^verbatim>\<open>0.5\<close>,
  \<^verbatim>\<open>1e+21\<close>, \<^verbatim>\<open>Infinity\<close>). That text identifies the number up to the sign of zero, and
  the gateway does three things only with a number: it tests it with ToBoolean, it uses it
  as a \<^verbatim>\<open>Map\<close> key (SameValueZero), and it prints it in a template literal; none of them
  tells the two zeros apart. So all three are exact on this representation.

  \<^verbatim>\<open>Map\<close> keys are compared by value, as SameValueZero compares strings, numbers and
  booleans; an object or array used as a key is identified with its content.
\<close>

type_synonym number = string

datatype json =
    JNull
  | JBool bool
  | JNum number
  | JStr string
  | JArr "json list"
  | JObj "(string \<times> json) list"

type_synonym jsval = "json option"

text \<open>
  ToBoolean: \<^verbatim>\<open>undefined\<close>, \<^verbatim>\<open>null\<close>, \<^verbatim>\<open>false\<close>, the zeros, \<^verbatim>\<open>NaN\<close> and \<^verbatim>\<open>''\<close> are falsy.
\<close>

fun truthy :: "json \<Rightarrow> bool" where
  "truthy JNull = False"
| "truthy (JBool b) = b"
| "truthy (JNum n) = (n \<noteq> ''0'' \<and> n \<noteq> ''NaN'')"
| "truthy (JStr s) = (s \<noteq> [])"
| "truthy (JArr xs) = True"
| "truthy (JObj kvs) = True"

definition truthy_val :: "jsval \<Rightarrow> bool" where
  "truthy_val v = (case v of None \<Rightarrow> False | Some j \<Rightarrow> truthy j)"

text \<open>\<^verbatim>\<open>a || b\<close> yields \<^verbatim>\<open>a\<close> when it is truthy and \<^verbatim>\<open>b\<close> otherwise.\<close>

definition js_or :: "jsval \<Rightarrow> jsval \<Rightarrow> jsval" where
  "js_or a b = (if truthy_val a then a else b)"

text \<open>\<^verbatim>\<open>a || d\<close> with a default \<^verbatim>\<open>d\<close> that is defined.\<close>

definition or_else :: "jsval \<Rightarrow> json \<Rightarrow> json" where
  "or_else a d = (case a of None \<Rightarrow> d | Some j \<Rightarrow> if truthy j then j else d)"

text \<open>
  \<^verbatim>\<open>v.k\<close> on a value that is neither \<^verbatim>\<open>null\<close> nor \<^verbatim>\<open>undefined\<close>. For a repeated key
  \<^verbatim>\<open>JSON.parse\<close> keeps the last binding. Strings, numbers, booleans and arrays have none
  of the properties the gateway reads (\<^verbatim>\<open>method\<close>, \<^verbatim>\<open>params\<close>, \<^verbatim>\<open>auth\<close>, \<^verbatim>\<open>token\<close>,
  \<^verbatim>\<open>authToken\<close>, \<^verbatim>\<open>device\<close>, \<^verbatim>\<open>client\<close>, \<^verbatim>\<open>id\<close>, \<^verbatim>\<open>deviceId\<close>, \<^verbatim>\<open>message\<close>,
  \<^verbatim>\<open>sessionKey\<close>, \<^verbatim>\<open>idempotencyKey\<close>).
\<close>

fun get_prop :: "json \<Rightarrow> string \<Rightarrow> jsval" where
  "get_prop (JObj kvs) k = map_of (rev kvs) k"
| "get_prop j k = None"

text \<open>\<^verbatim>\<open>v?.k\<close>: \<^verbatim>\<open>undefined\<close> when \<^verbatim>\<open>v\<close> is \<^verbatim>\<open>null\<close> or \<^verbatim>\<open>undefined\<close>.\<close>

definition opt_prop :: "jsval \<Rightarrow> string \<Rightarrow> jsval" where
  "opt_prop v k = (case v of None \<Rightarrow> None | Some JNull \<Rightarrow> None | Some j \<Rightarrow> get_prop j k)"

text \<open>
  \<^verbatim>\<open>v.k\<close> on any value: reading a property of \<^verbatim>\<open>null\<close> or \<^verbatim>\<open>undefined\<close> throws a
  TypeError; \<open>Inl\<close> carries its \<^verbatim>\<open>message\<close> (in the wording of V8, the engine of Node.js).
\<close>

definition cannot_read :: "string \<Rightarrow> string \<Rightarrow> string" where
  "cannot_read what k = ''Cannot read properties of '' @ what @ '' (reading '' @ [CHR 39] @ k @ [CHR 39] @ '')''"

definition read_prop :: "jsval \<Rightarrow> string \<Rightarrow> string + jsval" where
  "read_prop v k =
     (case v of
        None \<Rightarrow> Inl (cannot_read ''undefined'' k)
      | Some JNull \<Rightarrow> Inl (cannot_read ''null'' k)
      | Some j \<Rightarrow> Inr (get_prop j k))"

fun join_with :: "string \<Rightarrow> string list \<Rightarrow> string" where
  "join_with sep [] = []"
| "join_with sep [s] = s"
| "join_with sep (s # t # ss) = s @ sep @ join_with sep (t # ss)"

text \<open>The results of a row of evaluations, or the error of the first one that throws.\<close>

fun collect :: "('e + 'a) list \<Rightarrow> 'e + 'a list" where
  "collect [] = Inr []"
| "collect (Inl e # rs) = Inl e"
| "collect (Inr x # rs) = (case collect rs of Inl e \<Rightarrow> Inl e | Inr xs \<Rightarrow> Inr (x # xs))"

text \<open>
  ToString, as the template literals \<^verbatim>\<open>`... ${deviceId}`\<close> apply it; \<open>Inl\<close> carries the
  \<^verbatim>\<open>message\<close> of the TypeError it throws (in the wording of V8). An object is converted
  by its \<^verbatim>\<open>toString\<close> method: an object that \<^verbatim>\<open>JSON.parse\<close> built inherits the one that
  yields \<^verbatim>\<open>[object Object]\<close>, unless it has an own property \<^verbatim>\<open>toString\<close>, which is never a
  function; then the conversion falls back on \<^verbatim>\<open>valueOf\<close>, which yields no primitive
  either, and throws. An array is its elements joined by commas, \<^verbatim>\<open>null\<close> printing as
  nothing, and throws when an element does.
\<close>

definition cannot_convert :: string where
  "cannot_convert = ''Cannot convert object to primitive value''"

fun to_string :: "json \<Rightarrow> string + string" where
  "to_string JNull = Inr ''null''"
| "to_string (JBool b) = Inr (if b then ''true'' else ''false'')"
| "to_string (JNum n) = Inr n"
| "to_string (JStr s) = Inr s"
| "to_string (JArr xs) =
     (case collect (map (\<lambda>x. if x = JNull then Inr [] else to_string x) xs) of
        Inl err \<Rightarrow> Inl err
      | Inr shown \<Rightarrow> Inr (join_with '','' shown))"
| "to_string (JObj kvs) =
     (case map_of kvs ''toString'' of
        None \<Rightarrow> Inr ''[object Object]''
      | Some v \<Rightarrow> Inl cannot_convert)"

text \<open>
  An object literal of the source, as the value that \<^verbatim>\<open>JSON.stringify\<close> serialises: a
  property whose value is \<^verbatim>\<open>undefined\<close> is left out, since \<^verbatim>\<open>JSON.stringify\<close> does not
  write it.
\<close>

definition obj :: "(string \<times> jsval) list \<Rightarrow> json" where
  "obj kvs = JObj (List.map_filter (\<lambda>(k, v). map_option (Pair k) v) kvs)"

section \<open>Gateway state and observable effects\<close>

datatype ready_state = CONNECTING | OPEN | CLOSING | CLOSED

text \<open>
  A WebSocket object: the \<^verbatim>\<open>readyState\<close> the transport maintains and the \<^verbatim>\<open>deviceId\<close>
  tag that \<^verbatim>\<open>_handleMessage\<close> writes on it (\<open>None\<close> until it is tagged).
\<close>

record socket =
  readyState :: ready_state
  deviceId :: jsval

text \<open>The notifications \<^verbatim>\<open>this.emit(...)\<close> raises to the application layer.\<close>

datatype notification =
    DeviceConnected json string
  | DeviceDisconnected json
  | Message json jsval jsval jsval

text \<open>
  Console output: \<open>Log s\<close> is \<^verbatim>\<open>console.log(s)\<close> from \<^verbatim>\<open>log\<close>; \<open>DebugIn j\<close> and
  \<open>DebugOut j\<close> are \<^verbatim>\<open>console.log('IN <', JSON.stringify(j))\<close> and
  \<^verbatim>\<open>console.log('OUT >', JSON.stringify(j))\<close>.
\<close>

datatype console_line = Log string | DebugIn json | DebugOut json

text \<open>
  Everything the gateway does to the outside, in the order it happens: a console line,
  \<^verbatim>\<open>ws.send(JSON.stringify(data))\<close> on the socket at an address, a notification.
\<close>

datatype effect = Console console_line | Send nat json | Emit notification

text \<open>
  The fields of a \<^verbatim>\<open>RabbitGateway\<close>. \<open>clients\<close> is the \<^verbatim>\<open>Map\<close> from device id to
  WebSocket; since sockets are shared mutable objects, the map holds addresses into the
  store \<open>sockets\<close>.
\<close>

record gateway =
  port :: number
  debug :: bool
  token :: string
  clients :: "json \<rightharpoonup> nat"
  sockets :: "nat \<Rightarrow> socket"
  trace :: "effect list"

text \<open>
  The results of the calls to \<^verbatim>\<open>uuidv4()\<close> and \<^verbatim>\<open>Date.now()\<close> that handling one event
  makes, in call order.
\<close>

record ambient =
  uuid :: string
  now1 :: number
  now2 :: number

fun is_console :: "effect \<Rightarrow> bool" where
  "is_console (Console c) = True"
| "is_console e = False"

text \<open>The frames written and notifications raised, console output left out.\<close>

definition externals :: "effect list \<Rightarrow> effect list" where
  "externals tr = filter (\<lambda>e. \<not> is_console e) tr"

fun log_text :: "effect \<Rightarrow> string option" where
  "log_text (Console (Log s)) = Some s"
| "log_text e = None"

definition log_lines :: "effect list \<Rightarrow> string list" where
  "log_lines tr = List.map_filter log_text tr"

section \<open>The gateway's methods\<close>

definition perform :: "gateway \<Rightarrow> effect \<Rightarrow> gateway" where
  "perform g e = g\<lparr>trace := trace g @ [e]\<rparr>"

definition log :: "gateway \<Rightarrow> string \<Rightarrow> gateway" where
  "log g msg = perform g (Console (Log (''[RabbitGateway] '' @ msg)))"

text \<open>
  \<^verbatim>\<open>this.emit(...)\<close> hands a notification to the application; what its listeners do with
  it is not part of the gateway.
\<close>

definition emit :: "gateway \<Rightarrow> notification \<Rightarrow> gateway" where
  "emit g n = perform g (Emit n)"

definition sendJson :: "gateway \<Rightarrow> nat \<Rightarrow> json \<Rightarrow> gateway" where
  "sendJson g ws data =
     (if readyState (sockets g ws) = OPEN
      then perform (if debug g then perform g (Console (DebugOut data)) else g) (Send ws data)
      else g)"

definition extractToken :: "json \<Rightarrow> jsval" where
  "extractToken msg =
     js_or (js_or (js_or
       (opt_prop (opt_prop (get_prop msg ''params'') ''auth'') ''token'')
       (opt_prop (get_prop msg ''params'') ''authToken''))
       (opt_prop (get_prop msg ''auth'') ''token''))
       (get_prop msg ''token'')"

definition extractDeviceId :: "json \<Rightarrow> jsval" where
  "extractDeviceId msg =
     js_or (js_or (js_or
       (opt_prop (opt_prop (get_prop msg ''params'') ''device'') ''id'')
       (opt_prop (get_prop msg ''params'') ''deviceId''))
       (opt_prop (opt_prop (get_prop msg ''params'') ''client'') ''id''))
       (get_prop msg ''deviceId'')"

text \<open>
  The object literals that \<^verbatim>\<open>_handleConnection\<close> and \<^verbatim>\<open>_handleMessage\<close> pass to
  \<^verbatim>\<open>_sendJson\<close>, in the order of the source. \<open>req_id\<close> is \<^verbatim>\<open>msg.id\<close>, \<open>tok\<close> and \<open>nonce\<close> a
  result of \<^verbatim>\<open>uuidv4()\<close>, \<open>ts\<close> one of \<^verbatim>\<open>Date.now()\<close>.
\<close>

definition connect_challenge :: "string \<Rightarrow> number \<Rightarrow> json" where
  "connect_challenge nonce ts = obj
     [(''type'', Some (JStr ''event'')),
      (''event'', Some (JStr ''connect.challenge'')),
      (''payload'', Some (obj [(''nonce'', Some (JStr nonce)), (''ts'', Some (JNum ts))]))]"

definition invalid_token_response :: "jsval \<Rightarrow> json" where
  "invalid_token_response req_id = obj
     [(''type'', Some (JStr ''res'')),
      (''id'', req_id),
      (''ok'', Some (JBool False)),
      (''error'', Some (obj
         [(''code'', Some (JNum ''401'')), (''message'', Some (JStr ''Invalid token''))]))]"

definition pair_approved_event :: "json \<Rightarrow> string \<Rightarrow> json" where
  "pair_approved_event device_id tok = obj
     [(''type'', Some (JStr ''event'')),
      (''event'', Some (JStr ''node.pair.approved'')),
      (''payload'', Some (obj [(''deviceId'', Some device_id), (''token'', Some (JStr tok))]))]"

definition connect_response :: "jsval \<Rightarrow> number \<Rightarrow> json" where
  "connect_response req_id ts = obj
     [(''type'', Some (JStr ''res'')),
      (''id'', req_id),
      (''ok'', Some (JBool True)),
      (''payload'', Some (obj [(''status'', Some (JStr ''paired'')), (''ts'', Some (JNum ts))]))]"

definition connect_ok_event :: "json \<Rightarrow> number \<Rightarrow> json" where
  "connect_ok_event device_id ts = obj
     [(''type'', Some (JStr ''event'')),
      (''event'', Some (JStr ''connect.ok'')),
      (''payload'', Some (obj [(''deviceId'', Some device_id), (''ts'', Some (JNum ts))]))]"

definition chat_ack :: "jsval \<Rightarrow> json" where
  "chat_ack req_id = obj
     [(''type'', Some (JStr ''res'')),
      (''id'', req_id),
      (''ok'', Some (JBool True))]"

text \<open>
  How a call ends: it returns, or it throws an error with the given \<^verbatim>\<open>message\<close>. The
  state travels with both, since what was done before a throw stays done.
\<close>

datatype outcome = Returned | Threw string

text \<open>
  \<^verbatim>\<open>_handleMessage(ws, msg, remoteInfo)\<close>. The function is \<^verbatim>\<open>async\<close> but awaits nothing,
  so it runs to its end in one piece. \<^verbatim>\<open>msg.method\<close> throws when \<^verbatim>\<open>msg\<close> is \<^verbatim>\<open>null\<close>, and
  \<^verbatim>\<open>msg.params.message\<close> throws when \<^verbatim>\<open>msg.params\<close> is \<^verbatim>\<open>null\<close> or \<^verbatim>\<open>undefined\<close>; once it
  has not, the two reads of \<^verbatim>\<open>msg.params\<close> that follow cannot throw either. The template
  literals of the two \<^verbatim>\<open>this.log\<close> calls throw when the device id has no string
  conversion: in the rejection before the response is sent, in the acceptance after the
  registry and the tag are written and before the first frame. \<^verbatim>\<open>===\<close> and \<^verbatim>\<open>!==\<close>
  against a string hold for that string only.
\<close>

definition handleMessage :: "ambient \<Rightarrow> gateway \<Rightarrow> nat \<Rightarrow> json \<Rightarrow> string \<Rightarrow> outcome \<times> gateway" where
  "handleMessage a g ws msg remoteInfo =
     (let g = (if debug g then perform g (Console (DebugIn msg)) else g) in
      case read_prop (Some msg) ''method'' of
        Inl err \<Rightarrow> (Threw err, g)
      | Inr method \<Rightarrow>
          if method = Some (JStr ''connect'') \<or> method = Some (JStr ''gateway.connect'') then
            (let clientToken = extractToken msg;
                 device_id = or_else (extractDeviceId msg) (JStr (''device-'' @ remoteInfo))
             in
               if clientToken \<noteq> Some (JStr (token g)) then
                 (case to_string device_id of
                    Inl err \<Rightarrow> (Threw err, g)
                  | Inr shown \<Rightarrow>
                      (let g = log g (''Auth failed for device '' @ shown);
                           g = sendJson g ws (invalid_token_response (get_prop msg ''id''))
                       in (Returned, g)))
               else
                 (let g = g\<lparr>clients := (clients g)(device_id \<mapsto> ws)\<rparr>;
                      g = g\<lparr>sockets := (sockets g)(ws := (sockets g ws)\<lparr>deviceId := Some device_id\<rparr>)\<rparr>
                  in
                    case to_string device_id of
                      Inl err \<Rightarrow> (Threw err, g)
                    | Inr shown \<Rightarrow>
                        (let g = log g (''Device Paired: '' @ shown);
                             g = sendJson g ws (pair_approved_event device_id (uuid a));
                             g = sendJson g ws (connect_response (get_prop msg ''id'') (now1 a));
                             g = sendJson g ws (connect_ok_event device_id (now2 a));
                             g = emit g (DeviceConnected device_id remoteInfo)
                         in (Returned, g))))
          else if method = Some (JStr ''chat.send'') then
            (let device_id = or_else (deviceId (sockets g ws)) (JStr ''unknown'');
                 params = get_prop msg ''params''
             in
               case read_prop params ''message'' of
                 Inl err \<Rightarrow> (Threw err, g)
               | Inr text \<Rightarrow>
                   (let g = emit g (Message device_id text
                                      (opt_prop params ''sessionKey'')
                                      (opt_prop params ''idempotencyKey''));
                        g = sendJson g ws (chat_ack (get_prop msg ''id''))
                    in (Returned, g)))
          else (Returned, g))"

text \<open>
  \<^verbatim>\<open>_handleDisconnect(ws)\<close>. Its template literal prints \<^verbatim>\<open>ws.deviceId\<close> after the registry
  entry is deleted, so a throw there leaves the entry deleted and the notification out.
\<close>

definition handleDisconnect :: "gateway \<Rightarrow> nat \<Rightarrow> outcome \<times> gateway" where
  "handleDisconnect g ws =
     (case deviceId (sockets g ws) of
        None \<Rightarrow> (Returned, g)
      | Some d \<Rightarrow>
          if truthy d then
            (let g = g\<lparr>clients := (clients g)(d := None)\<rparr> in
             case to_string d of
               Inl err \<Rightarrow> (Threw err, g)
             | Inr shown \<Rightarrow>
                 (let g = log g (''Device disconnected: '' @ shown);
                      g = emit g (DeviceDisconnected d)
                  in (Returned, g)))
          else (Returned, g))"

text \<open>
  The listeners that \<^verbatim>\<open>_handleConnection\<close> registers on a socket. \<open>onMessage\<close> is the
  \<^verbatim>\<open>'message'\<close> listener: \<^verbatim>\<open>JSON.parse\<close> is a parameter that yields the parsed value or the
  message of the SyntaxError it throws, and the \<^verbatim>\<open>catch\<close> also receives what
  \<^verbatim>\<open>_handleMessage\<close> throws. \<open>onClose\<close> is the \<^verbatim>\<open>'close'\<close> listener, which catches
  nothing; the transport has set \<^verbatim>\<open>readyState\<close> to \<^verbatim>\<open>CLOSED\<close> when it fires.
\<close>

definition onMessage ::
  "(string \<Rightarrow> string + json) \<Rightarrow> ambient \<Rightarrow> gateway \<Rightarrow> nat \<Rightarrow> string \<Rightarrow> string \<Rightarrow> gateway" where
  "onMessage JSON_parse a g ws remoteInfo data =
     (case JSON_parse data of
        Inl err \<Rightarrow> log g (''Error parsing message from '' @ remoteInfo @ '': '' @ err)
      | Inr msg \<Rightarrow>
          (case handleMessage a g ws msg remoteInfo of
             (Returned, g') \<Rightarrow> g'
           | (Threw err, g') \<Rightarrow>
               log g' (''Error parsing message from '' @ remoteInfo @ '': '' @ err)))"

definition onClose :: "gateway \<Rightarrow> nat \<Rightarrow> outcome \<times> gateway" where
  "onClose g ws =
     handleDisconnect (g\<lparr>sockets := (sockets g)(ws := (sockets g ws)\<lparr>readyState := CLOSED\<rparr>)\<rparr>) ws"

text \<open>
  \<^verbatim>\<open>_handleConnection(ws, req)\<close>: logs the peer, sends the challenge and yields the
  \<^verbatim>\<open>remoteInfo\<close> that the two listeners close over.
\<close>

record request =
  remoteAddress :: string
  remotePort :: number

definition handleConnection :: "ambient \<Rightarrow> gateway \<Rightarrow> nat \<Rightarrow> request \<Rightarrow> string \<times> gateway" where
  "handleConnection a g ws req =
     (let remoteInfo = remoteAddress req @ '':'' @ remotePort req;
          g = log g (''New connection from '' @ remoteInfo);
          g = sendJson g ws (connect_challenge (uuid a) (now1 a))
      in (remoteInfo, g))"

text \<open>
  \<^verbatim>\<open>sendText(deviceId, text, options = {})\<close>, with \<^verbatim>\<open>deviceId\<close> a string as its
  documentation types it; the pair is the return value and the state.
\<close>

record send_options =
  runId :: jsval
  sessionKey :: jsval

definition no_options :: send_options where
  "no_options = \<lparr>runId = None, sessionKey = None\<rparr>"

definition chat_event :: "ambient \<Rightarrow> jsval \<Rightarrow> send_options \<Rightarrow> json" where
  "chat_event a text options = obj
     [(''type'', Some (JStr ''event'')),
      (''event'', Some (JStr ''chat'')),
      (''payload'', Some (obj
         [(''runId'', Some (or_else (runId options) (JStr (uuid a)))),
          (''sessionKey'', Some (or_else (sessionKey options) (JStr ''main''))),
          (''seq'', Some (JNum ''1'')),
          (''state'', Some (JStr ''final'')),
          (''message'', Some (obj
             [(''role'', Some (JStr ''assistant'')),
              (''content'', Some (JArr [obj [(''type'', Some (JStr ''text'')), (''text'', text)]])),
              (''timestamp'', Some (JNum (now1 a))),
              (''stopReason'', Some (JStr ''stop'')),
              (''usage'', Some (obj
                 [(''input'', Some (JNum ''0'')),
                  (''output'', Some (JNum ''0'')),
                  (''totalTokens'', Some (JNum ''0''))]))]))]))]"

definition sendText :: "ambient \<Rightarrow> gateway \<Rightarrow> string \<Rightarrow> jsval \<Rightarrow> send_options \<Rightarrow> bool \<times> gateway" where
  "sendText a g device_id text options =
     (case clients g (JStr device_id) of
        None \<Rightarrow> (False, log g (''Cannot send to '' @ device_id @ '': Not connected''))
      | Some ws \<Rightarrow> (True, sendJson g ws (chat_event a text options)))"

text \<open>
  The constructor and \<^verbatim>\<open>start()\<close>. \<^verbatim>\<open>options.port || 18789\<close>, \<^verbatim>\<open>options.debug || false\<close>
  and \<^verbatim>\<open>options.token || uuidv4().replace(/-/g, '')\<close>; the listening server itself is
  outside the model, \<open>sockets\<close> being the store its connections will live in.
\<close>

record gateway_options =
  opt_port :: "number option"
  opt_debug :: "bool option"
  opt_token :: "string option"

definition new_gateway :: "ambient \<Rightarrow> gateway_options \<Rightarrow> (nat \<Rightarrow> socket) \<Rightarrow> gateway" where
  "new_gateway a options store =
     \<lparr>port = (case opt_port options of
                None \<Rightarrow> ''18789''
              | Some p \<Rightarrow> if truthy (JNum p) then p else ''18789''),
      debug = (case opt_debug options of None \<Rightarrow> False | Some d \<Rightarrow> d),
      token = (case opt_token options of
                 None \<Rightarrow> filter (\<lambda>c. c \<noteq> CHR ''-'') (uuid a)
               | Some t \<Rightarrow> if t \<noteq> [] then t else filter (\<lambda>c. c \<noteq> CHR ''-'') (uuid a)),
      clients = Map.empty,
      sockets = store,
      trace = []\<rparr>"

definition start :: "gateway \<Rightarrow> gateway" where
  "start g =
     (let g = log g (''Rabbit Gateway listening on port '' @ port g);
          g = log g (''Gateway Token: '' @ token g)
      in g)"

section \<open>Names used in the statements\<close>

text \<open>
  The test of the first \<^verbatim>\<open>if\<close> of \<^verbatim>\<open>_handleMessage\<close>, the test of its second one, and
  the device id it resolves for a connect request:
  \<^verbatim>\<open>this._extractDeviceId(msg) || `device-${remoteInfo}`\<close>.
\<close>

definition is_connect :: "json \<Rightarrow> bool" where
  "is_connect msg \<longleftrightarrow>
     get_prop msg ''method'' = Some (JStr ''connect'') \<or>
     get_prop msg ''method'' = Some (JStr ''gateway.connect'')"

definition is_chat_send :: "json \<Rightarrow> bool" where
  "is_chat_send msg \<longleftrightarrow> get_prop msg ''method'' = Some (JStr ''chat.send'')"

definition resolved_id :: "json \<Rightarrow> string \<Rightarrow> json" where
  "resolved_id msg remoteInfo = or_else (extractDeviceId msg) (JStr (''device-'' @ remoteInfo))"

text \<open>
  The \<^verbatim>\<open>'message'\<close> listener of one socket run on the frames that arrive on it, one after
  the other; each frame comes with the ambient results of its handling.
\<close>

fun receive ::
  "(string \<Rightarrow> string + json) \<Rightarrow> gateway \<Rightarrow> nat \<Rightarrow> string \<Rightarrow> (ambient \<times> string) list \<Rightarrow> gateway" where
  "receive JSON_parse g ws remoteInfo [] = g"
| "receive JSON_parse g ws remoteInfo ((a, data) # rest) =
     receive JSON_parse (onMessage JSON_parse a g ws remoteInfo data) ws remoteInfo rest"

text \<open>
  The effects of the debug dump of an inbound message, and of one call of \<^verbatim>\<open>_sendJson\<close>.
\<close>

definition debug_in :: "gateway \<Rightarrow> json \<Rightarrow> effect list" where
  "debug_in g msg = (if debug g then [Console (DebugIn msg)] else [])"

definition written :: "gateway \<Rightarrow> nat \<Rightarrow> json \<Rightarrow> effect list" where
  "written g ws f =
     (if readyState (sockets g ws) = OPEN
      then (if debug g then [Console (DebugOut f)] else []) @ [Send ws f] else [])"

text \<open>
  The console lines that only \<^verbatim>\<open>debug\<close> enables.
\<close>

fun is_dump :: "effect \<Rightarrow> bool" where
  "is_dump (Console (DebugIn j)) = True"
| "is_dump (Console (DebugOut j)) = True"
| "is_dump e = False"

definition dumps :: "effect list \<Rightarrow> effect list" where
  "dumps tr = filter is_dump tr"

subsection \<open>A concrete run\<close>

text \<open>
  A gateway as \<^verbatim>\<open>new RabbitGateway({ token: 's3cr3t' })\<close> builds it, with a store of
  sockets that are open and not yet tagged; the connect request of the README; a chat
  request; a request with a method the gateway does not know.
\<close>

definition demo_gateway :: gateway where
  "demo_gateway =
     new_gateway \<lparr>uuid = ''0f8fad5b-d9cb-469f-a165-70867728950e'', now1 = ''0'', now2 = ''0''\<rparr>
       \<lparr>opt_port = None, opt_debug = None, opt_token = Some ''s3cr3t''\<rparr>
       (\<lambda>ws. \<lparr>readyState = OPEN, deviceId = None\<rparr>)"

definition demo_ambient :: ambient where
  "demo_ambient = \<lparr>uuid = ''u-1'', now1 = ''1000'', now2 = ''1001''\<rparr>"

definition demo_remote :: string where "demo_remote = ''10.0.0.2:5000''"

definition connect_request :: "string \<Rightarrow> string \<Rightarrow> json" where
  "connect_request tok d = JObj [(''method'', JStr ''connect''),
     (''params'', JObj [(''auth'', JObj [(''token'', JStr tok)]), (''device'', JObj [(''id'', JStr d)])]),
     (''id'', JStr ''r1'')]"

definition chat_request :: json where
  "chat_request = JObj [(''method'', JStr ''chat.send''),
     (''params'', JObj [(''message'', JStr ''hi''), (''sessionKey'', JStr ''main''),
                        (''idempotencyKey'', JStr ''k1'')]),
     (''id'', JStr ''c1'')]"

definition ping_request :: json where
  "ping_request = JObj [(''method'', JStr ''ping''), (''id'', JStr ''p1'')]"

text \<open>
  Socket 1 paired as \<^verbatim>\<open>d1\<close>; then the same socket connecting again as \<^verbatim>\<open>d2\<close>, and that
  socket closed afterwards; or, instead, socket 2 pairing as \<^verbatim>\<open>d1\<close> too.
\<close>

definition demo_paired :: gateway where
  "demo_paired = snd (handleMessage demo_ambient demo_gateway 1 (connect_request ''s3cr3t'' ''d1'') demo_remote)"

definition demo_retagged :: gateway where
  "demo_retagged = snd (handleMessage demo_ambient demo_paired 1 (connect_request ''s3cr3t'' ''d2'') demo_remote)"

definition demo_stale :: gateway where
  "demo_stale = snd (onClose demo_retagged 1)"

definition demo_repaired :: gateway where
  "demo_repaired = snd (handleMessage demo_ambient demo_paired 2 (connect_request ''s3cr3t'' ''d1'') ''10.0.0.3:6000'')"

text \<open>
  Socket 1 of the concrete gateway with its transport closing, and a connect request whose
  device id is the object \<^verbatim>\<open>{"toString": 1}\<close>.
\<close>

definition demo_closing :: gateway where
  "demo_closing =
     demo_gateway\<lparr>sockets := (sockets demo_gateway)(1 := \<lparr>readyState = CLOSING, deviceId = None\<rparr>)\<rparr>"

definition odd_id :: json where
  "odd_id = JObj [(''toString'', JNum ''1'')]"

definition odd_id_request :: "string \<Rightarrow> json" where
  "odd_id_request tok = JObj [(''method'', JStr ''connect''),
     (''params'', JObj [(''auth'', JObj [(''token'', JStr tok)]), (''device'', JObj [(''id'', odd_id)])]),
     (''id'', JStr ''r2'')]"

text \<open>
  Instances of the \<^verbatim>\<open>JSON.parse\<close> parameter: each yields one fixed result.
\<close>

definition wrong_parse :: "string \<Rightarrow> string + json" where
  "wrong_parse data = Inr (connect_request ''guess'' ''d1'')"

definition ping_parse :: "string \<Rightarrow> string + json" where
  "ping_parse data = Inr ping_request"

definition chat_parse :: "string \<Rightarrow> string + json" where
  "chat_parse data = Inr chat_request"

definition failing_parse :: "string \<Rightarrow> string + json" where
  "failing_parse data = Inl ''Unexpected end of JSON input''"

section \<open>Facts about the handlers\<close>

lemma read_prop_defined: "msg \<noteq> JNull \<Longrightarrow> read_prop (Some msg) k = Inr (get_prop msg k)"
  by (cases msg) (simp_all add: read_prop_def)

lemma is_connect_not_null: "is_connect msg \<Longrightarrow> msg \<noteq> JNull"
  by (auto simp: is_connect_def)

lemma externals_append [simp]: "externals (xs @ ys) = externals xs @ externals ys"
  by (simp add: externals_def)

lemma externals_simps [simp]:
  "externals [] = []"
  "externals (Console c # tr) = externals tr"
  "externals (Send w d # tr) = Send w d # externals tr"
  "externals (Emit n # tr) = Emit n # externals tr"
  by (simp_all add: externals_def)

text \<open>The object literals of the source, written out.\<close>

lemma pair_approved_event_literal:
  "pair_approved_event d tok =
     JObj [(''type'', JStr ''event''), (''event'', JStr ''node.pair.approved''),
           (''payload'', JObj [(''deviceId'', d), (''token'', JStr tok)])]"
  by (simp add: pair_approved_event_def obj_def List.map_filter_def)

lemma connect_response_literal:
  "connect_response i ts =
     JObj ([(''type'', JStr ''res'')] @
           (case i of None \<Rightarrow> [] | Some v \<Rightarrow> [(''id'', v)]) @
           [(''ok'', JBool True),
            (''payload'', JObj [(''status'', JStr ''paired''), (''ts'', JNum ts)])])"
  by (cases i) (simp_all add: connect_response_def obj_def List.map_filter_def)

lemma connect_ok_event_literal:
  "connect_ok_event d ts =
     JObj [(''type'', JStr ''event''), (''event'', JStr ''connect.ok''),
           (''payload'', JObj [(''deviceId'', d), (''ts'', JNum ts)])]"
  by (simp add: connect_ok_event_def obj_def List.map_filter_def)

lemma invalid_token_response_literal:
  "invalid_token_response i =
     JObj ([(''type'', JStr ''res'')] @
           (case i of None \<Rightarrow> [] | Some v \<Rightarrow> [(''id'', v)]) @
           [(''ok'', JBool False),
            (''error'', JObj [(''code'', JNum ''401''), (''message'', JStr ''Invalid token'')])])"
  by (cases i) (simp_all add: invalid_token_response_def obj_def List.map_filter_def)

lemma chat_ack_literal:
  "chat_ack i =
     JObj ([(''type'', JStr ''res'')] @
           (case i of None \<Rightarrow> [] | Some v \<Rightarrow> [(''id'', v)]) @
           [(''ok'', JBool True)])"
  by (cases i) (simp_all add: chat_ack_def obj_def List.map_filter_def)


lemma sendJson_trace: "sendJson g ws f = g\<lparr>trace := trace g @ written g ws f\<rparr>"
  by (simp add: sendJson_def written_def perform_def)

lemma written_cong [simp]:
  "written (g\<lparr>trace := tr\<rparr>) ws f = written g ws f"
  "written (g\<lparr>clients := c\<rparr>) ws f = written g ws f"
  by (simp_all add: written_def)

text \<open>The four branches of the handler, each with the state it leaves.\<close>

lemma handleMessage_accepted:
  assumes "is_connect msg" and "extractToken msg = Some (JStr (token g))"
  shows "handleMessage a g ws msg remoteInfo =
     (let d = resolved_id msg remoteInfo;
          g1 = g\<lparr>clients := (clients g)(d \<mapsto> ws),
                 sockets := (sockets g)(ws := (sockets g ws)\<lparr>deviceId := Some d\<rparr>),
                 trace := trace g @ debug_in g msg\<rparr>
      in case to_string d of
           Inl err \<Rightarrow> (Threw err, g1)
         | Inr shown \<Rightarrow>
             (Returned,
              g1\<lparr>trace := trace g @ debug_in g msg @
                     [Console (Log (''[RabbitGateway] Device Paired: '' @ shown))] @
                     written g ws (pair_approved_event d (uuid a)) @
                     written g ws (connect_response (get_prop msg ''id'') (now1 a)) @
                     written g ws (connect_ok_event d (now2 a)) @
                     [Emit (DeviceConnected d remoteInfo)]\<rparr>))"
proof -
  have r: "read_prop (Some msg) ''method'' = Inr (get_prop msg ''method'')"
    by (rule read_prop_defined[OF is_connect_not_null[OF assms(1)]])
  have tk: "token (if debug g then perform g (Console (DebugIn msg)) else g) = token g"
    by (simp add: perform_def)
  from assms(1) have m: "(get_prop msg ''method'' = Some (JStr ''connect'') \<or>
         get_prop msg ''method'' = Some (JStr ''gateway.connect'')) = True"
    by (simp add: is_connect_def)
  show ?thesis
    unfolding handleMessage_def Let_def r sum.case m if_True tk resolved_id_def
    by (cases "to_string (or_else (extractDeviceId msg) (JStr (''device-'' @ remoteInfo)))")
       (simp_all add: assms(2) sendJson_def written_def log_def emit_def perform_def debug_in_def)
qed

lemma handleMessage_rejected:
  assumes "is_connect msg" and "extractToken msg \<noteq> Some (JStr (token g))"
  shows "handleMessage a g ws msg remoteInfo =
     (case to_string (resolved_id msg remoteInfo) of
        Inl err \<Rightarrow> (Threw err, g\<lparr>trace := trace g @ debug_in g msg\<rparr>)
      | Inr shown \<Rightarrow>
          (Returned,
           g\<lparr>trace := trace g @ debug_in g msg @
                [Console (Log (''[RabbitGateway] Auth failed for device '' @ shown))] @
                written g ws (invalid_token_response (get_prop msg ''id''))\<rparr>))"
proof -
  have r: "read_prop (Some msg) ''method'' = Inr (get_prop msg ''method'')"
    by (rule read_prop_defined[OF is_connect_not_null[OF assms(1)]])
  have tk: "token (if debug g then perform g (Console (DebugIn msg)) else g) = token g"
    by (simp add: perform_def)
  from assms(1) have m: "(get_prop msg ''method'' = Some (JStr ''connect'') \<or>
         get_prop msg ''method'' = Some (JStr ''gateway.connect'')) = True"
    by (simp add: is_connect_def)
  show ?thesis
    unfolding handleMessage_def Let_def r sum.case m if_True tk resolved_id_def
    by (cases "to_string (or_else (extractDeviceId msg) (JStr (''device-'' @ remoteInfo)))")
       (simp_all add: assms(2) sendJson_def written_def log_def perform_def debug_in_def)
qed

lemma handleMessage_ignored:
  assumes "\<not> is_connect msg" and "\<not> is_chat_send msg"
  shows "snd (handleMessage a g ws msg remoteInfo) = g\<lparr>trace := trace g @ debug_in g msg\<rparr>"
proof (cases "msg = JNull")
  case True
  then show ?thesis
    by (simp add: handleMessage_def read_prop_def perform_def debug_in_def)
next
  case False
  have r: "read_prop (Some msg) ''method'' = Inr (get_prop msg ''method'')"
    by (rule read_prop_defined[OF False])
  from assms(1) have m: "(get_prop msg ''method'' = Some (JStr ''connect'') \<or>
         get_prop msg ''method'' = Some (JStr ''gateway.connect'')) = False"
    by (simp add: is_connect_def)
  from assms(2) have c: "(get_prop msg ''method'' = Some (JStr ''chat.send'')) = False"
    by (simp add: is_chat_send_def)
  show ?thesis
    unfolding handleMessage_def Let_def r sum.case m c if_False
    by (simp add: perform_def debug_in_def)
qed

lemma handleMessage_chat:
  assumes "is_chat_send msg"
  shows "handleMessage a g ws msg remoteInfo =
     (case read_prop (get_prop msg ''params'') ''message'' of
        Inl err \<Rightarrow> (Threw err, g\<lparr>trace := trace g @ debug_in g msg\<rparr>)
      | Inr text \<Rightarrow>
          (Returned,
           g\<lparr>trace := trace g @ debug_in g msg @
                [Emit (Message (or_else (deviceId (sockets g ws)) (JStr ''unknown'')) text
                         (opt_prop (get_prop msg ''params'') ''sessionKey'')
                         (opt_prop (get_prop msg ''params'') ''idempotencyKey''))] @
                written g ws (chat_ack (get_prop msg ''id''))\<rparr>))"
proof -
  from assms have nn: "msg \<noteq> JNull" by (auto simp: is_chat_send_def)
  have r: "read_prop (Some msg) ''method'' = Inr (get_prop msg ''method'')"
    by (rule read_prop_defined[OF nn])
  from assms have m: "(get_prop msg ''method'' = Some (JStr ''connect'') \<or>
         get_prop msg ''method'' = Some (JStr ''gateway.connect'')) = False"
    by (simp add: is_chat_send_def)
  from assms have c: "(get_prop msg ''method'' = Some (JStr ''chat.send'')) = True"
    by (simp add: is_chat_send_def)
  show ?thesis
    unfolding handleMessage_def Let_def r sum.case m c if_False if_True
    by (cases "read_prop (get_prop msg ''params'') ''message''")
       (simp_all add: sendJson_trace emit_def perform_def debug_in_def written_def)
qed

text \<open>The fields a message can change, for every message.\<close>

lemma handleMessage_sockets:
  "sockets (snd (handleMessage a g ws msg remoteInfo)) =
     (if is_connect msg \<and> extractToken msg = Some (JStr (token g))
      then (sockets g)(ws := (sockets g ws)\<lparr>deviceId := Some (resolved_id msg remoteInfo)\<rparr>)
      else sockets g)"
proof (cases "is_connect msg")
  case True
  then show ?thesis
    by (cases "extractToken msg = Some (JStr (token g))";
        cases "to_string (resolved_id msg remoteInfo)")
       (simp_all add: handleMessage_accepted handleMessage_rejected Let_def)
next
  case nc: False
  show ?thesis
  proof (cases "is_chat_send msg")
    case True
    then show ?thesis using nc
      by (cases "read_prop (get_prop msg ''params'') ''message''")
         (simp_all add: handleMessage_chat)
  next
    case False
    then show ?thesis using nc by (simp add: handleMessage_ignored)
  qed
qed

lemma handleMessage_clients:
  "clients (snd (handleMessage a g ws msg remoteInfo)) =
     (if is_connect msg \<and> extractToken msg = Some (JStr (token g))
      then (clients g)(resolved_id msg remoteInfo \<mapsto> ws)
      else clients g)"
proof (cases "is_connect msg")
  case True
  then show ?thesis
    by (cases "extractToken msg = Some (JStr (token g))";
        cases "to_string (resolved_id msg remoteInfo)")
       (simp_all add: handleMessage_accepted handleMessage_rejected Let_def)
next
  case nc: False
  show ?thesis
  proof (cases "is_chat_send msg")
    case True
    then show ?thesis using nc
      by (cases "read_prop (get_prop msg ''params'') ''message''")
         (simp_all add: handleMessage_chat)
  next
    case False
    then show ?thesis using nc by (simp add: handleMessage_ignored)
  qed
qed

lemma handleMessage_token: "token (snd (handleMessage a g ws msg remoteInfo)) = token g"
proof (cases "is_connect msg")
  case True
  then show ?thesis
    by (cases "extractToken msg = Some (JStr (token g))";
        cases "to_string (resolved_id msg remoteInfo)")
       (simp_all add: handleMessage_accepted handleMessage_rejected Let_def)
next
  case nc: False
  show ?thesis
  proof (cases "is_chat_send msg")
    case True
    then show ?thesis using nc
      by (cases "read_prop (get_prop msg ''params'') ''message''")
         (simp_all add: handleMessage_chat)
  next
    case False
    then show ?thesis using nc by (simp add: handleMessage_ignored)
  qed
qed

lemma log_fields [simp]:
  "clients (log g s) = clients g" "sockets (log g s) = sockets g" "token (log g s) = token g"
  "debug (log g s) = debug g" "port (log g s) = port g"
  "trace (log g s) = trace g @ [Console (Log (''[RabbitGateway] '' @ s))]"
  by (simp_all add: log_def perform_def)

text \<open>What the listener keeps of a call of the handler: its state, and a log line if it threw.\<close>

lemma onMessage_parsed:
  assumes "JSON_parse data = Inr msg"
  shows "onMessage JSON_parse a g ws remoteInfo data =
     (case fst (handleMessage a g ws msg remoteInfo) of
        Returned \<Rightarrow> snd (handleMessage a g ws msg remoteInfo)
      | Threw err \<Rightarrow>
          log (snd (handleMessage a g ws msg remoteInfo))
              (''Error parsing message from '' @ remoteInfo @ '': '' @ err))"
  using assms by (simp add: onMessage_def split: prod.splits outcome.splits)

lemma onMessage_malformed:
  assumes "JSON_parse data = Inl err"
  shows "onMessage JSON_parse a g ws remoteInfo data =
     g\<lparr>trace := trace g @
        [Console (Log (''[RabbitGateway] Error parsing message from '' @ remoteInfo @ '': '' @ err))]\<rparr>"
  using assms by (simp add: onMessage_def log_def perform_def)

lemma onMessage_sockets:
  "sockets (onMessage JSON_parse a g ws remoteInfo data) =
     (case JSON_parse data of
        Inl err \<Rightarrow> sockets g
      | Inr msg \<Rightarrow>
          if is_connect msg \<and> extractToken msg = Some (JStr (token g))
          then (sockets g)(ws := (sockets g ws)\<lparr>deviceId := Some (resolved_id msg remoteInfo)\<rparr>)
          else sockets g)"
proof (cases "JSON_parse data")
  case (Inl err)
  then show ?thesis by (simp add: onMessage_malformed)
next
  case (Inr msg)
  then show ?thesis
    by (cases "fst (handleMessage a g ws msg remoteInfo)")
       (simp_all add: onMessage_parsed handleMessage_sockets)
qed

lemma onMessage_clients:
  "clients (onMessage JSON_parse a g ws remoteInfo data) =
     (case JSON_parse data of
        Inl err \<Rightarrow> clients g
      | Inr msg \<Rightarrow>
          if is_connect msg \<and> extractToken msg = Some (JStr (token g))
          then (clients g)(resolved_id msg remoteInfo \<mapsto> ws)
          else clients g)"
proof (cases "JSON_parse data")
  case (Inl err)
  then show ?thesis by (simp add: onMessage_malformed)
next
  case (Inr msg)
  then show ?thesis
    by (cases "fst (handleMessage a g ws msg remoteInfo)")
       (simp_all add: onMessage_parsed handleMessage_clients)
qed

lemma onMessage_token: "token (onMessage JSON_parse a g ws remoteInfo data) = token g"
proof (cases "JSON_parse data")
  case (Inl err)
  then show ?thesis by (simp add: onMessage_malformed)
next
  case (Inr msg)
  then show ?thesis
    by (cases "fst (handleMessage a g ws msg remoteInfo)")
       (simp_all add: onMessage_parsed handleMessage_token)
qed

lemma onMessage_rejected:
  assumes "JSON_parse data = Inr msg" and "is_connect msg"
      and "extractToken msg \<noteq> Some (JStr (token g))"
  shows "onMessage JSON_parse a g ws remoteInfo data =
      g\<lparr>trace := trace g @ debug_in g msg @
           (case to_string (resolved_id msg remoteInfo) of
              Inl err \<Rightarrow>
                [Console (Log (''[RabbitGateway] Error parsing message from '' @ remoteInfo @
                               '': '' @ err))]
            | Inr shown \<Rightarrow>
                [Console (Log (''[RabbitGateway] Auth failed for device '' @ shown))] @
                written g ws (invalid_token_response (get_prop msg ''id'')))\<rparr>"
  by (cases "to_string (resolved_id msg remoteInfo)")
     (simp_all add: onMessage_parsed[where JSON_parse=JSON_parse and data=data, OF assms(1)]
        handleMessage_rejected[OF assms(2,3)] log_def perform_def)

lemma externals_debug_in [simp]: "externals (debug_in g msg) = []"
  by (simp add: debug_in_def)

lemma externals_written [simp]:
  "externals (written g ws f) = (if readyState (sockets g ws) = OPEN then [Send ws f] else [])"
  by (simp add: written_def)

text \<open>A run of rejected connect requests: the state it keeps, the frames it writes.\<close>

lemma receive_rejected_state:
  assumes "\<forall>(a, data) \<in> set frames. \<exists>msg. JSON_parse data = Inr msg \<and> is_connect msg \<and>
             extractToken msg \<noteq> Some (JStr (token g))"
  shows "clients (receive JSON_parse g ws remoteInfo frames) = clients g \<and>
         sockets (receive JSON_parse g ws remoteInfo frames) = sockets g"
  using assms
proof (induction frames arbitrary: g)
  case Nil
  then show ?case by simp
next
  case (Cons f frames)
  obtain a data where f: "f = (a, data)" by (cases f)
  from Cons.prems f obtain msg where
    p: "JSON_parse data = Inr msg" and c: "is_connect msg"
    and t: "extractToken msg \<noteq> Some (JStr (token g))"
    by auto
  let ?g1 = "onMessage JSON_parse a g ws remoteInfo data"
  have tok: "token ?g1 = token g" by (rule onMessage_token)
  have so: "sockets ?g1 = sockets g" and cl: "clients ?g1 = clients g"
    using c t by (simp_all add: onMessage_sockets onMessage_clients p)
  have w1: "\<forall>(a, data) \<in> set frames. \<exists>msg. JSON_parse data = Inr msg \<and> is_connect msg \<and>
                    extractToken msg \<noteq> Some (JStr (token ?g1))"
    using Cons.prems by (simp add: tok)
  from Cons.IH[OF w1] show ?case
    by (simp add: f so cl)
qed

lemma receive_rejected_frames:
  assumes "\<forall>(a, data) \<in> set frames. \<exists>msg. JSON_parse data = Inr msg \<and> is_connect msg \<and>
             extractToken msg \<noteq> Some (JStr (token g))"
      and "\<forall>(a, data) \<in> set frames.
             \<exists>shown. to_string (resolved_id (projr (JSON_parse data)) remoteInfo) = Inr shown"
  shows "externals (trace (receive JSON_parse g ws remoteInfo frames)) =
           externals (trace g) @
           (if readyState (sockets g ws) = OPEN
            then map (\<lambda>(a, data). Send ws (invalid_token_response
                                           (get_prop (projr (JSON_parse data)) ''id''))) frames
            else [])"
  using assms
proof (induction frames arbitrary: g)
  case Nil
  then show ?case by simp
next
  case (Cons f frames)
  obtain a data where f: "f = (a, data)" by (cases f)
  from Cons.prems(1) f obtain msg where
    p: "JSON_parse data = Inr msg" and c: "is_connect msg"
    and t: "extractToken msg \<noteq> Some (JStr (token g))"
    by auto
  from Cons.prems(2) f p obtain shown where
    s: "to_string (resolved_id msg remoteInfo) = Inr shown"
    by auto
  let ?g1 = "onMessage JSON_parse a g ws remoteInfo data"
  have g1: "?g1 = g\<lparr>trace := trace g @ debug_in g msg @
           [Console (Log (''[RabbitGateway] Auth failed for device '' @ shown))] @
           written g ws (invalid_token_response (get_prop msg ''id''))\<rparr>"
    by (simp add: onMessage_rejected[where JSON_parse=JSON_parse and data=data, OF p c t] s)
  have tok: "token ?g1 = token g" and so: "sockets ?g1 = sockets g"
    by (simp_all add: g1)
  have ex: "externals (trace ?g1) =
      externals (trace g) @
      (if readyState (sockets g ws) = OPEN
       then [Send ws (invalid_token_response (get_prop msg ''id''))] else [])"
    by (simp add: g1)
  have w1: "\<forall>(a, data) \<in> set frames. \<exists>msg. JSON_parse data = Inr msg \<and> is_connect msg \<and>
                    extractToken msg \<noteq> Some (JStr (token ?g1))"
    using Cons.prems(1) by (simp add: tok)
  have w2: "\<forall>(a, data) \<in> set frames.
             \<exists>shown. to_string (resolved_id (projr (JSON_parse data)) remoteInfo) = Inr shown"
    using Cons.prems(2) by simp
  from Cons.IH[OF w1 w2] show ?case
    by (simp add: f ex so p)
qed

lemma receive_keeps_tag:
  "deviceId (sockets g ws) \<noteq> None \<Longrightarrow>
   deviceId (sockets (receive JSON_parse g ws remoteInfo frames) ws) \<noteq> None"
proof (induction frames arbitrary: g)
  case Nil
  then show ?case by simp
next
  case (Cons f frames)
  obtain a data where f: "f = (a, data)" by (cases f)
  have "deviceId (sockets (onMessage JSON_parse a g ws remoteInfo data) ws) \<noteq> None"
    using Cons.prems by (cases "JSON_parse data") (simp_all add: onMessage_sockets)
  from Cons.IH[OF this] show ?case by (simp add: f)
qed

text \<open>The \<^verbatim>\<open>'close'\<close> listener: what it leaves of the registry and of the sockets.\<close>

lemma onClose_fields:
  "clients (snd (onClose g ws)) =
     (case deviceId (sockets g ws) of
        None \<Rightarrow> clients g
      | Some d \<Rightarrow> if truthy d then (clients g)(d := None) else clients g)"
  "sockets (snd (onClose g ws)) = (sockets g)(ws := (sockets g ws)\<lparr>readyState := CLOSED\<rparr>)"
proof -
  show "clients (snd (onClose g ws)) =
     (case deviceId (sockets g ws) of
        None \<Rightarrow> clients g
      | Some d \<Rightarrow> if truthy d then (clients g)(d := None) else clients g)"
  proof (cases "deviceId (sockets g ws)")
    case None
    then show ?thesis by (simp add: onClose_def handleDisconnect_def)
  next
    case (Some d)
    then show ?thesis
      by (cases "to_string d")
         (simp_all add: onClose_def handleDisconnect_def Let_def emit_def perform_def)
  qed
  show "sockets (snd (onClose g ws)) = (sockets g)(ws := (sockets g ws)\<lparr>readyState := CLOSED\<rparr>)"
  proof (cases "deviceId (sockets g ws)")
    case None
    then show ?thesis by (simp add: onClose_def handleDisconnect_def)
  next
    case (Some d)
    then show ?thesis
      by (cases "to_string d")
         (simp_all add: onClose_def handleDisconnect_def Let_def emit_def perform_def)
  qed
qed

lemma onClose_returns:
  "deviceId (sockets g ws) = Some (JStr d) \<Longrightarrow> fst (onClose g ws) = Returned"
  by (simp add: onClose_def handleDisconnect_def Let_def)

text \<open>The log of \<^verbatim>\<open>start()\<close>, and the lines that \<^verbatim>\<open>debug\<close> gates.\<close>

lemma log_lines_simps [simp]:
  "log_lines [] = []"
  "log_lines (xs @ ys) = log_lines xs @ log_lines ys"
  "log_lines (Console (Log s) # tr) = s # log_lines tr"
  by (simp_all add: log_lines_def List.map_filter_def)

lemma start_log:
  "log_lines (trace (start g)) = log_lines (trace g) @
     [''[RabbitGateway] Rabbit Gateway listening on port '' @ port g,
      ''[RabbitGateway] Gateway Token: '' @ token g]"
  by (simp add: start_def Let_def)

lemma dumps_simps [simp]:
  "dumps [] = []"
  "dumps (xs @ ys) = dumps xs @ dumps ys"
  "dumps (Console (Log s) # tr) = dumps tr"
  "dumps (Send w d # tr) = dumps tr"
  "dumps (Emit n # tr) = dumps tr"
  "dumps (Console (DebugIn j) # tr) = Console (DebugIn j) # dumps tr"
  "dumps (Console (DebugOut j) # tr) = Console (DebugOut j) # dumps tr"
  by (simp_all add: dumps_def)

lemma dumps_quiet:
  "\<not> debug g \<Longrightarrow> dumps (debug_in g msg) = []"
  "\<not> debug g \<Longrightarrow> dumps (written g ws f) = []"
  by (simp_all add: debug_in_def written_def)

lemma handleMessage_dumps:
  assumes "\<not> debug g"
  shows "dumps (trace (snd (handleMessage a g ws msg remoteInfo))) = dumps (trace g)"
proof (cases "is_connect msg")
  case True
  then show ?thesis using assms
    by (cases "extractToken msg = Some (JStr (token g))";
        cases "to_string (resolved_id msg remoteInfo)")
       (simp_all add: handleMessage_accepted handleMessage_rejected Let_def dumps_quiet)
next
  case nc: False
  show ?thesis
  proof (cases "is_chat_send msg")
    case True
    then show ?thesis using nc assms
      by (cases "read_prop (get_prop msg ''params'') ''message''")
         (simp_all add: handleMessage_chat dumps_quiet)
  next
    case False
    then show ?thesis using nc assms by (simp add: handleMessage_ignored dumps_quiet)
  qed
qed

text \<open>The concrete run, evaluated.\<close>

lemma connect_request_facts:
  "is_connect (connect_request tok d)"
  "\<not> is_chat_send (connect_request tok d)"
  "tok \<noteq> [] \<Longrightarrow> extractToken (connect_request tok d) = Some (JStr tok)"
  "d \<noteq> [] \<Longrightarrow> resolved_id (connect_request tok d) r = JStr d"
  "get_prop (connect_request tok d) ''id'' = Some (JStr ''r1'')"
  by (simp_all add: is_connect_def is_chat_send_def connect_request_def extractToken_def
      extractDeviceId_def resolved_id_def opt_prop_def js_or_def truthy_val_def or_else_def)

lemma odd_id_request_facts:
  "is_connect (odd_id_request tok)"
  "tok \<noteq> [] \<Longrightarrow> extractToken (odd_id_request tok) = Some (JStr tok)"
  "resolved_id (odd_id_request tok) r = odd_id"
  "to_string odd_id = Inl ''Cannot convert object to primitive value''"
  "get_prop (odd_id_request tok) ''id'' = Some (JStr ''r2'')"
  by (simp_all add: is_connect_def odd_id_request_def odd_id_def extractToken_def
      extractDeviceId_def resolved_id_def opt_prop_def js_or_def truthy_val_def or_else_def
      cannot_convert_def)

lemma demo_gateway_fields:
  "token demo_gateway = ''s3cr3t''" "debug demo_gateway = False" "port demo_gateway = ''18789''"
  "clients demo_gateway = Map.empty" "trace demo_gateway = []"
  "sockets demo_gateway ws = \<lparr>readyState = OPEN, deviceId = None\<rparr>"
  by (simp_all add: demo_gateway_def new_gateway_def)

lemma demo_closing_fields:
  "token demo_closing = ''s3cr3t''" "debug demo_closing = False"
  "clients demo_closing = Map.empty" "trace demo_closing = []"
  "sockets demo_closing =
     (sockets demo_gateway)(1 := \<lparr>readyState = CLOSING, deviceId = None\<rparr>)"
  by (simp_all add: demo_closing_def demo_gateway_fields)

lemma demo_ambient_fields:
  "uuid demo_ambient = ''u-1''" "now1 demo_ambient = ''1000''" "now2 demo_ambient = ''1001''"
  by (simp_all add: demo_ambient_def)

lemma chat_request_facts:
  "is_chat_send chat_request" "\<not> is_connect chat_request"
  "read_prop (get_prop chat_request ''params'') ''message'' = Inr (Some (JStr ''hi''))"
  "opt_prop (get_prop chat_request ''params'') ''sessionKey'' = Some (JStr ''main'')"
  "opt_prop (get_prop chat_request ''params'') ''idempotencyKey'' = Some (JStr ''k1'')"
  "get_prop chat_request ''id'' = Some (JStr ''c1'')"
  by (simp_all add: is_chat_send_def is_connect_def chat_request_def read_prop_def opt_prop_def)

lemma ping_request_facts: "\<not> is_connect ping_request" "\<not> is_chat_send ping_request"
  by (simp_all add: is_connect_def is_chat_send_def ping_request_def)

lemma demo_paired_fields:
  "token demo_paired = ''s3cr3t''"
  "clients demo_paired = [JStr ''d1'' \<mapsto> 1]"
  "sockets demo_paired = (sockets demo_gateway)(1 := \<lparr>readyState = OPEN, deviceId = Some (JStr ''d1'')\<rparr>)"
  by (simp_all add: demo_paired_def handleMessage_token handleMessage_clients handleMessage_sockets
      connect_request_facts demo_gateway_fields)

lemma demo_repaired_fields:
  "clients demo_repaired = [JStr ''d1'' \<mapsto> 2]"
  "sockets demo_repaired =
     (sockets demo_gateway)(1 := \<lparr>readyState = OPEN, deviceId = Some (JStr ''d1'')\<rparr>,
                            2 := \<lparr>readyState = OPEN, deviceId = Some (JStr ''d1'')\<rparr>)"
  by (simp_all add: demo_repaired_def handleMessage_clients handleMessage_sockets
      connect_request_facts demo_paired_fields demo_gateway_fields)

lemma demo_retagged_fields:
  "clients demo_retagged = [JStr ''d1'' \<mapsto> 1, JStr ''d2'' \<mapsto> 1]"
  "sockets demo_retagged =
     (sockets demo_gateway)(1 := \<lparr>readyState = OPEN, deviceId = Some (JStr ''d2'')\<rparr>)"
  by (simp_all add: demo_retagged_def handleMessage_clients handleMessage_sockets
      connect_request_facts demo_paired_fields demo_gateway_fields)

lemma demo_stale_fields:
  "clients demo_stale (JStr ''d1'') = Some 1"
  "sockets demo_stale =
     (sockets demo_gateway)(1 := \<lparr>readyState = CLOSED, deviceId = Some (JStr ''d2'')\<rparr>)"
  by (simp_all add: demo_stale_def onClose_fields demo_retagged_fields)

section \<open>The claims\<close>

text \<open>
  C1, as amended. A \<^verbatim>\<open>connect\<close> or \<^verbatim>\<open>gateway.connect\<close> request whose extracted token is the
  gateway token, and whose resolved device id has a string conversion, returns normally.
  If the transport of its connection is open it writes exactly three frames on that
  connection, in this order: the \<^verbatim>\<open>node.pair.approved\<close> event, the response
  \<^verbatim>\<open>{ok: true, payload: {status: 'paired', ts}}\<close> carrying the \<^verbatim>\<open>id\<close> of the request, the
  \<^verbatim>\<open>connect.ok\<close> event; if the transport is not open it writes none. After that, and with
  no other frame or notification in between, it raises \<^verbatim>\<open>deviceConnected {id, remote}\<close>.
\<close>

theorem connect_accepted_three_frames:
  assumes m: "is_connect msg"
      and t: "extractToken msg = Some (JStr (token g))"
      and s: "to_string (resolved_id msg remoteInfo) = Inr shown"
  shows "\<exists>g'. handleMessage a g ws msg remoteInfo = (Returned, g') \<and>
           externals (trace g') = externals (trace g) @
             (if readyState (sockets g ws) = OPEN then
                [Send ws (JObj
                   [(''type'', JStr ''event''),
                    (''event'', JStr ''node.pair.approved''),
                    (''payload'', JObj [(''deviceId'', resolved_id msg remoteInfo),
                                        (''token'', JStr (uuid a))])]),
                 Send ws (JObj
                   ([(''type'', JStr ''res'')] @
                    (case get_prop msg ''id'' of None \<Rightarrow> [] | Some i \<Rightarrow> [(''id'', i)]) @
                    [(''ok'', JBool True),
                     (''payload'', JObj [(''status'', JStr ''paired''),
                                         (''ts'', JNum (now1 a))])])),
                 Send ws (JObj
                   [(''type'', JStr ''event''),
                    (''event'', JStr ''connect.ok''),
                    (''payload'', JObj [(''deviceId'', resolved_id msg remoteInfo),
                                        (''ts'', JNum (now2 a))])])]
              else []) @
             [Emit (DeviceConnected (resolved_id msg remoteInfo) remoteInfo)]"
  by (simp add: handleMessage_accepted[OF m t] s Let_def pair_approved_event_literal
      connect_response_literal connect_ok_event_literal)

text \<open>
  The amended C1 at the README's connect request on the open socket 1 of the concrete
  gateway.
\<close>

theorem connect_accepted_three_frames_witness:
  "is_connect (connect_request ''s3cr3t'' ''d1'') \<and>
   extractToken (connect_request ''s3cr3t'' ''d1'') = Some (JStr (token demo_gateway)) \<and>
   to_string (resolved_id (connect_request ''s3cr3t'' ''d1'') demo_remote) = Inr ''d1'' \<and>
   readyState (sockets demo_gateway 1) = OPEN \<and>
   externals (trace (snd (handleMessage demo_ambient demo_gateway 1
                            (connect_request ''s3cr3t'' ''d1'') demo_remote))) =
     [Send 1 (JObj [(''type'', JStr ''event''),
                    (''event'', JStr ''node.pair.approved''),
                    (''payload'', JObj [(''deviceId'', JStr ''d1''), (''token'', JStr ''u-1'')])]),
      Send 1 (JObj [(''type'', JStr ''res''),
                    (''id'', JStr ''r1''),
                    (''ok'', JBool True),
                    (''payload'', JObj [(''status'', JStr ''paired''), (''ts'', JNum ''1000'')])]),
      Send 1 (JObj [(''type'', JStr ''event''),
                    (''event'', JStr ''connect.ok''),
                    (''payload'', JObj [(''deviceId'', JStr ''d1''), (''ts'', JNum ''1001'')])]),
      Emit (DeviceConnected (JStr ''d1'') ''10.0.0.2:5000'')]"
proof -
  have h1: "is_connect (connect_request ''s3cr3t'' ''d1'')"
    by (rule connect_request_facts)
  have h2: "extractToken (connect_request ''s3cr3t'' ''d1'') = Some (JStr (token demo_gateway))"
    by (simp add: connect_request_facts demo_gateway_fields)
  have h3: "to_string (resolved_id (connect_request ''s3cr3t'' ''d1'') demo_remote) = Inr ''d1''"
    by (simp add: connect_request_facts)
  have h4: "readyState (sockets demo_gateway 1) = OPEN"
    by (simp add: demo_gateway_fields)
  from connect_accepted_three_frames[OF h1 h2 h3, of demo_ambient 1] obtain g' where
    r: "handleMessage demo_ambient demo_gateway 1 (connect_request ''s3cr3t'' ''d1'') demo_remote =
          (Returned, g')"
    and e: "externals (trace g') = externals (trace demo_gateway) @
       (if readyState (sockets demo_gateway 1) = OPEN then
          [Send 1 (JObj
             [(''type'', JStr ''event''),
              (''event'', JStr ''node.pair.approved''),
              (''payload'', JObj [(''deviceId'', resolved_id (connect_request ''s3cr3t'' ''d1'') demo_remote),
                                  (''token'', JStr (uuid demo_ambient))])]),
           Send 1 (JObj
             ([(''type'', JStr ''res'')] @
              (case get_prop (connect_request ''s3cr3t'' ''d1'') ''id'' of
                 None \<Rightarrow> [] | Some i \<Rightarrow> [(''id'', i)]) @
              [(''ok'', JBool True),
               (''payload'', JObj [(''status'', JStr ''paired''),
                                   (''ts'', JNum (now1 demo_ambient))])])),
           Send 1 (JObj
             [(''type'', JStr ''event''),
              (''event'', JStr ''connect.ok''),
              (''payload'', JObj [(''deviceId'', resolved_id (connect_request ''s3cr3t'' ''d1'') demo_remote),
                                  (''ts'', JNum (now2 demo_ambient))])])]
        else []) @
       [Emit (DeviceConnected (resolved_id (connect_request ''s3cr3t'' ''d1'') demo_remote) demo_remote)]"
    by blast
  have "externals (trace (snd (handleMessage demo_ambient demo_gateway 1
                            (connect_request ''s3cr3t'' ''d1'') demo_remote))) =
     [Send 1 (JObj [(''type'', JStr ''event''),
                    (''event'', JStr ''node.pair.approved''),
                    (''payload'', JObj [(''deviceId'', JStr ''d1''), (''token'', JStr ''u-1'')])]),
      Send 1 (JObj [(''type'', JStr ''res''),
                    (''id'', JStr ''r1''),
                    (''ok'', JBool True),
                    (''payload'', JObj [(''status'', JStr ''paired''), (''ts'', JNum ''1000'')])]),
      Send 1 (JObj [(''type'', JStr ''event''),
                    (''event'', JStr ''connect.ok''),
                    (''payload'', JObj [(''deviceId'', JStr ''d1''), (''ts'', JNum ''1001'')])]),
      Emit (DeviceConnected (JStr ''d1'') ''10.0.0.2:5000'')]"
    unfolding r snd_conv using e
    by (simp add: connect_request_facts demo_gateway_fields demo_ambient_fields demo_remote_def)
  with h1 h2 h3 h4 show ?thesis by blast
qed

text \<open>
  C1 as stated fails in two ways. By design: every write of \<^verbatim>\<open>_sendJson\<close> is guarded by
  \<^verbatim>\<open>readyState === OPEN\<close>, so on socket 1 with its transport closing the accepted request
  registers the device and raises \<^verbatim>\<open>deviceConnected\<close> with no frame written. By a slip:
  with the device id \<^verbatim>\<open>{"toString": 1}\<close> the template literal of \<^verbatim>\<open>Device Paired\<close> throws
  after the registry entry is written, so on the open socket 1 the handler throws with no
  frame and no notification.
\<close>

theorem connect_accepted_no_frames:
  "is_connect (connect_request ''s3cr3t'' ''d1'') \<and>
   extractToken (connect_request ''s3cr3t'' ''d1'') = Some (JStr (token demo_closing)) \<and>
   readyState (sockets demo_closing 1) = CLOSING \<and>
   externals (trace (snd (handleMessage demo_ambient demo_closing 1
                            (connect_request ''s3cr3t'' ''d1'') demo_remote))) =
     [Emit (DeviceConnected (JStr ''d1'') ''10.0.0.2:5000'')] \<and>
   is_connect (odd_id_request ''s3cr3t'') \<and>
   extractToken (odd_id_request ''s3cr3t'') = Some (JStr (token demo_gateway)) \<and>
   readyState (sockets demo_gateway 1) = OPEN \<and>
   fst (handleMessage demo_ambient demo_gateway 1 (odd_id_request ''s3cr3t'') demo_remote) =
     Threw ''Cannot convert object to primitive value'' \<and>
   externals (trace (snd (handleMessage demo_ambient demo_gateway 1
                            (odd_id_request ''s3cr3t'') demo_remote))) = [] \<and>
   clients (snd (handleMessage demo_ambient demo_gateway 1
                   (odd_id_request ''s3cr3t'') demo_remote)) odd_id = Some 1"
proof -
  have c: "is_connect (connect_request ''s3cr3t'' ''d1'')"
    and tc: "extractToken (connect_request ''s3cr3t'' ''d1'') = Some (JStr (token demo_closing))"
    and tg: "extractToken (connect_request ''s3cr3t'' ''d1'') = Some (JStr (token demo_gateway))"
    by (simp_all add: connect_request_facts demo_closing_fields demo_gateway_fields)
  have o: "is_connect (odd_id_request ''s3cr3t'')"
    and ot: "extractToken (odd_id_request ''s3cr3t'') = Some (JStr (token demo_gateway))"
    by (simp_all add: odd_id_request_facts demo_gateway_fields)
  have 1: "readyState (sockets demo_closing 1) = CLOSING"
    by (simp add: demo_closing_fields)
  have 2: "externals (trace (snd (handleMessage demo_ambient demo_closing 1
                            (connect_request ''s3cr3t'' ''d1'') demo_remote))) =
     [Emit (DeviceConnected (JStr ''d1'') ''10.0.0.2:5000'')]"
    by (simp add: handleMessage_accepted[OF c tc] Let_def connect_request_facts
        demo_closing_fields demo_remote_def)
  have 3: "readyState (sockets demo_gateway 1) = OPEN"
    by (simp add: demo_gateway_fields)
  have 4: "fst (handleMessage demo_ambient demo_gateway 1 (odd_id_request ''s3cr3t'') demo_remote) =
     Threw ''Cannot convert object to primitive value''"
    and 5: "externals (trace (snd (handleMessage demo_ambient demo_gateway 1
                            (odd_id_request ''s3cr3t'') demo_remote))) = []"
    and 6: "clients (snd (handleMessage demo_ambient demo_gateway 1
                   (odd_id_request ''s3cr3t'') demo_remote)) odd_id = Some 1"
    by (simp_all add: handleMessage_accepted[OF o ot] Let_def odd_id_request_facts
        demo_gateway_fields)
  from c tc o ot 1 2 3 4 5 6 show ?thesis by blast
qed

text \<open>
  C2, as amended. A run of \<^verbatim>\<open>connect\<close> or \<^verbatim>\<open>gateway.connect\<close> requests whose extracted
  tokens differ from the gateway token, of any length, creates no registry entry and
  changes no socket: the connection stays open and untagged, and nothing counts the
  attempts. When the resolved device ids have a string conversion, each request gets
  exactly one frame if the transport is open, the response
  \<^verbatim>\<open>{ok: false, error: {code: 401, message: 'Invalid token'}}\<close> with the \<^verbatim>\<open>id\<close> of the request,
  and none if it is not open; no other frame is written and no notification is raised.
\<close>

theorem connect_rejected_401:
  assumes wrong: "\<forall>(a, data) \<in> set frames. \<exists>msg. JSON_parse data = Inr msg \<and> is_connect msg \<and>
                    extractToken msg \<noteq> Some (JStr (token g))"
  shows "clients (receive JSON_parse g ws remoteInfo frames) = clients g \<and>
         sockets (receive JSON_parse g ws remoteInfo frames) = sockets g \<and>
         ((\<forall>(a, data) \<in> set frames.
             \<exists>shown. to_string (resolved_id (projr (JSON_parse data)) remoteInfo) = Inr shown) \<longrightarrow>
          externals (trace (receive JSON_parse g ws remoteInfo frames)) =
            externals (trace g) @
            (if readyState (sockets g ws) = OPEN
             then map (\<lambda>(a, data). Send ws (JObj
                         ([(''type'', JStr ''res'')] @
                          (case get_prop (projr (JSON_parse data)) ''id'' of
                             None \<Rightarrow> [] | Some i \<Rightarrow> [(''id'', i)]) @
                          [(''ok'', JBool False),
                           (''error'', JObj [(''code'', JNum ''401''),
                                             (''message'', JStr ''Invalid token'')])]))) frames
             else []))"
proof (intro conjI impI)
  from receive_rejected_state[OF wrong]
  show "clients (receive JSON_parse g ws remoteInfo frames) = clients g"
    and "sockets (receive JSON_parse g ws remoteInfo frames) = sockets g"
    by blast+
next
  assume "\<forall>(a, data) \<in> set frames.
             \<exists>shown. to_string (resolved_id (projr (JSON_parse data)) remoteInfo) = Inr shown"
  from receive_rejected_frames[OF wrong this]
  show "externals (trace (receive JSON_parse g ws remoteInfo frames)) =
            externals (trace g) @
            (if readyState (sockets g ws) = OPEN
             then map (\<lambda>(a, data). Send ws (JObj
                         ([(''type'', JStr ''res'')] @
                          (case get_prop (projr (JSON_parse data)) ''id'' of
                             None \<Rightarrow> [] | Some i \<Rightarrow> [(''id'', i)]) @
                          [(''ok'', JBool False),
                           (''error'', JObj [(''code'', JNum ''401''),
                                             (''message'', JStr ''Invalid token'')])]))) frames
             else [])"
    by (simp add: invalid_token_response_literal)
qed

text \<open>
  The amended C2 at two wrong guesses in a row on the open socket 1.
\<close>

theorem connect_rejected_401_witness:
  "wrong_parse ''first'' = Inr (connect_request ''guess'' ''d1'') \<and>
   wrong_parse ''second'' = Inr (connect_request ''guess'' ''d1'') \<and>
   is_connect (connect_request ''guess'' ''d1'') \<and>
   extractToken (connect_request ''guess'' ''d1'') \<noteq> Some (JStr (token demo_gateway)) \<and>
   to_string (resolved_id (connect_request ''guess'' ''d1'') demo_remote) = Inr ''d1'' \<and>
   readyState (sockets demo_gateway 1) = OPEN \<and>
   externals (trace (receive wrong_parse demo_gateway 1 demo_remote
                       [(demo_ambient, ''first''), (demo_ambient, ''second'')])) =
     [Send 1 (JObj [(''type'', JStr ''res''), (''id'', JStr ''r1''), (''ok'', JBool False),
                    (''error'', JObj [(''code'', JNum ''401''),
                                      (''message'', JStr ''Invalid token'')])]),
      Send 1 (JObj [(''type'', JStr ''res''), (''id'', JStr ''r1''), (''ok'', JBool False),
                    (''error'', JObj [(''code'', JNum ''401''),
                                      (''message'', JStr ''Invalid token'')])])] \<and>
   clients (receive wrong_parse demo_gateway 1 demo_remote
              [(demo_ambient, ''first''), (demo_ambient, ''second'')]) (JStr ''d1'') = None \<and>
   sockets (receive wrong_parse demo_gateway 1 demo_remote
              [(demo_ambient, ''first''), (demo_ambient, ''second'')]) = sockets demo_gateway"
proof -
  let ?frames = "[(demo_ambient, ''first''), (demo_ambient, ''second'')]"
  have p: "wrong_parse ''first'' = Inr (connect_request ''guess'' ''d1'')"
    "wrong_parse ''second'' = Inr (connect_request ''guess'' ''d1'')"
    by (simp_all add: wrong_parse_def)
  have c: "is_connect (connect_request ''guess'' ''d1'')"
    and t: "extractToken (connect_request ''guess'' ''d1'') \<noteq> Some (JStr (token demo_gateway))"
    and s: "to_string (resolved_id (connect_request ''guess'' ''d1'') demo_remote) = Inr ''d1''"
    and o: "readyState (sockets demo_gateway 1) = OPEN"
    by (simp_all add: connect_request_facts demo_gateway_fields)
  have h1: "\<forall>(a, data) \<in> set ?frames.
      \<exists>msg. wrong_parse data = Inr msg \<and> is_connect msg \<and>
            extractToken msg \<noteq> Some (JStr (token demo_gateway))"
    using c t by (simp add: p)
  have h2: "\<forall>(a, data) \<in> set ?frames.
      \<exists>shown. to_string (resolved_id (projr (wrong_parse data)) demo_remote) = Inr shown"
    using s by (simp add: p)
  have e: "map (\<lambda>(a, data). Send 1 (JObj
                         ([(''type'', JStr ''res'')] @
                          (case get_prop (projr (wrong_parse data)) ''id'' of
                             None \<Rightarrow> [] | Some i \<Rightarrow> [(''id'', i)]) @
                          [(''ok'', JBool False),
                           (''error'', JObj [(''code'', JNum ''401''),
                                             (''message'', JStr ''Invalid token'')])]))) ?frames =
     [Send 1 (JObj [(''type'', JStr ''res''), (''id'', JStr ''r1''), (''ok'', JBool False),
                    (''error'', JObj [(''code'', JNum ''401''),
                                      (''message'', JStr ''Invalid token'')])]),
      Send 1 (JObj [(''type'', JStr ''res''), (''id'', JStr ''r1''), (''ok'', JBool False),
                    (''error'', JObj [(''code'', JNum ''401''),
                                      (''message'', JStr ''Invalid token'')])])]"
    by (simp add: p connect_request_facts)
  from connect_rejected_401[OF h1, of 1 demo_remote] h2
  have "externals (trace (receive wrong_parse demo_gateway 1 demo_remote ?frames)) =
     [Send 1 (JObj [(''type'', JStr ''res''), (''id'', JStr ''r1''), (''ok'', JBool False),
                    (''error'', JObj [(''code'', JNum ''401''),
                                      (''message'', JStr ''Invalid token'')])]),
      Send 1 (JObj [(''type'', JStr ''res''), (''id'', JStr ''r1''), (''ok'', JBool False),
                    (''error'', JObj [(''code'', JNum ''401''),
                                      (''message'', JStr ''Invalid token'')])])]"
    and "clients (receive wrong_parse demo_gateway 1 demo_remote ?frames) (JStr ''d1'') = None"
    and "sockets (receive wrong_parse demo_gateway 1 demo_remote ?frames) = sockets demo_gateway"
    unfolding e by (simp_all only: o demo_gateway_fields(4,5) externals_simps append_Nil if_True simp_thms)
  with p c t s o show ?thesis by blast
qed

text \<open>
  C2 as stated fails in two ways. By design: \<^verbatim>\<open>_sendJson\<close> writes only on an open
  transport, so the rejected request on socket 1 with its transport closing gets no
  frame. By a slip: with the device id \<^verbatim>\<open>{"toString": 1}\<close> the template literal of
  \<^verbatim>\<open>Auth failed\<close> throws before \<^verbatim>\<open>_sendJson\<close> is reached, so on the open socket 1 the
  handler throws and no 401 response is written.
\<close>

theorem connect_rejected_no_frame:
  "is_connect (connect_request ''guess'' ''d1'') \<and>
   extractToken (connect_request ''guess'' ''d1'') \<noteq> Some (JStr (token demo_closing)) \<and>
   readyState (sockets demo_closing 1) = CLOSING \<and>
   externals (trace (snd (handleMessage demo_ambient demo_closing 1
                            (connect_request ''guess'' ''d1'') demo_remote))) = [] \<and>
   is_connect (odd_id_request ''guess'') \<and>
   extractToken (odd_id_request ''guess'') \<noteq> Some (JStr (token demo_gateway)) \<and>
   readyState (sockets demo_gateway 1) = OPEN \<and>
   fst (handleMessage demo_ambient demo_gateway 1 (odd_id_request ''guess'') demo_remote) =
     Threw ''Cannot convert object to primitive value'' \<and>
   externals (trace (snd (handleMessage demo_ambient demo_gateway 1
                            (odd_id_request ''guess'') demo_remote))) = []"
proof -
  have c: "is_connect (connect_request ''guess'' ''d1'')"
    and tc: "extractToken (connect_request ''guess'' ''d1'') \<noteq> Some (JStr (token demo_closing))"
    by (simp_all add: connect_request_facts demo_closing_fields)
  have o: "is_connect (odd_id_request ''guess'')"
    and ot: "extractToken (odd_id_request ''guess'') \<noteq> Some (JStr (token demo_gateway))"
    by (simp_all add: odd_id_request_facts demo_gateway_fields)
  have 1: "readyState (sockets demo_closing 1) = CLOSING"
    by (simp add: demo_closing_fields)
  have 2: "externals (trace (snd (handleMessage demo_ambient demo_closing 1
                            (connect_request ''guess'' ''d1'') demo_remote))) = []"
    by (simp add: handleMessage_rejected[OF c tc] connect_request_facts demo_closing_fields)
  have 3: "readyState (sockets demo_gateway 1) = OPEN"
    by (simp add: demo_gateway_fields)
  have 4: "fst (handleMessage demo_ambient demo_gateway 1 (odd_id_request ''guess'') demo_remote) =
     Threw ''Cannot convert object to primitive value''"
    and 5: "externals (trace (snd (handleMessage demo_ambient demo_gateway 1
                            (odd_id_request ''guess'') demo_remote))) = []"
    by (simp_all add: handleMessage_rejected[OF o ot] odd_id_request_facts demo_gateway_fields)
  from c tc o ot 1 2 3 4 5 show ?thesis by blast
qed

text \<open>
  C3, as amended. A request whose method is none of \<^verbatim>\<open>connect\<close>, \<^verbatim>\<open>gateway.connect\<close> and
  \<^verbatim>\<open>chat.send\<close> is ignored on every connection, paired or not: no frame is written, no
  notification is raised, registry and sockets stay as they are.
\<close>

theorem unknown_method_ignored:
  assumes p: "JSON_parse data = Inr msg"
      and nc: "\<not> is_connect msg" and ns: "\<not> is_chat_send msg"
  shows "externals (trace (onMessage JSON_parse a g ws remoteInfo data)) = externals (trace g) \<and>
         clients (onMessage JSON_parse a g ws remoteInfo data) = clients g \<and>
         sockets (onMessage JSON_parse a g ws remoteInfo data) = sockets g"
proof -
  have s: "snd (handleMessage a g ws msg remoteInfo) = g\<lparr>trace := trace g @ debug_in g msg\<rparr>"
    by (rule handleMessage_ignored[OF nc ns])
  show ?thesis
    by (cases "fst (handleMessage a g ws msg remoteInfo)")
       (simp_all add: onMessage_parsed[where JSON_parse=JSON_parse and data=data, OF p] s)
qed

text \<open>
  The amended C3 at a \<^verbatim>\<open>ping\<close> request on the paired socket 1.
\<close>

theorem unknown_method_ignored_witness:
  "ping_parse ''{\"method\":\"ping\",\"id\":\"p1\"}'' = Inr ping_request \<and>
   \<not> is_connect ping_request \<and> \<not> is_chat_send ping_request \<and>
   externals (trace (onMessage ping_parse demo_ambient demo_paired 1 demo_remote
                       ''{\"method\":\"ping\",\"id\":\"p1\"}'')) = externals (trace demo_paired) \<and>
   clients (onMessage ping_parse demo_ambient demo_paired 1 demo_remote
                       ''{\"method\":\"ping\",\"id\":\"p1\"}'') = clients demo_paired \<and>
   sockets (onMessage ping_parse demo_ambient demo_paired 1 demo_remote
                       ''{\"method\":\"ping\",\"id\":\"p1\"}'') = sockets demo_paired"
proof -
  have h1: "ping_parse ''{\"method\":\"ping\",\"id\":\"p1\"}'' = Inr ping_request"
    by (simp add: ping_parse_def)
  from unknown_method_ignored[of ping_parse, OF h1 ping_request_facts] h1 ping_request_facts show ?thesis
    by simp
qed

text \<open>
  C3 as stated also covers \<^verbatim>\<open>chat.send\<close> on a connection that is not paired. That request
  is not ignored: \<^verbatim>\<open>ws.deviceId || 'unknown'\<close> lets it through, so the application gets a
  \<^verbatim>\<open>message\<close> notification for device \<^verbatim>\<open>unknown\<close> and the connection gets the
  acknowledgement.
\<close>

theorem chat_send_unpaired_dispatched:
  "deviceId (sockets demo_gateway 1) = None \<and>
   \<not> is_connect chat_request \<and>
   externals (trace (snd (handleMessage demo_ambient demo_gateway 1 chat_request demo_remote))) =
     [Emit (Message (JStr ''unknown'') (Some (JStr ''hi'')) (Some (JStr ''main'')) (Some (JStr ''k1''))),
      Send 1 (chat_ack (Some (JStr ''c1'')))]"
  by (simp add: handleMessage_chat chat_request_facts demo_gateway_fields or_else_def)

text \<open>
  C4, as amended. Once a connection carries a device id, no inbound frame clears it, and
  a frame changes it only when it is a \<^verbatim>\<open>connect\<close> or \<^verbatim>\<open>gateway.connect\<close> request on that
  same connection with the gateway token, which tags the connection with the id resolved
  from that request. Frames on other connections leave it alone.
\<close>

theorem device_id_changes_only_by_pairing:
  assumes "deviceId (sockets g ws) = Some d"
  shows "deviceId (sockets (onMessage JSON_parse a g ws remoteInfo data) ws) =
           (case JSON_parse data of
              Inl err \<Rightarrow> Some d
            | Inr msg \<Rightarrow>
                if is_connect msg \<and> extractToken msg = Some (JStr (token g))
                then Some (resolved_id msg remoteInfo) else Some d) \<and>
         (ws' \<noteq> ws \<longrightarrow>
            deviceId (sockets (onMessage JSON_parse a g ws' remoteInfo' data') ws) = Some d) \<and>
         deviceId (sockets (receive JSON_parse g ws remoteInfo frames) ws) \<noteq> None"
proof (intro conjI impI)
  show "deviceId (sockets (onMessage JSON_parse a g ws remoteInfo data) ws) =
           (case JSON_parse data of
              Inl err \<Rightarrow> Some d
            | Inr msg \<Rightarrow>
                if is_connect msg \<and> extractToken msg = Some (JStr (token g))
                then Some (resolved_id msg remoteInfo) else Some d)"
    using assms by (cases "JSON_parse data") (simp_all add: onMessage_sockets)
next
  assume "ws' \<noteq> ws"
  then show "deviceId (sockets (onMessage JSON_parse a g ws' remoteInfo' data') ws) = Some d"
    using assms by (cases "JSON_parse data'") (simp_all add: onMessage_sockets)
next
  from assms have "deviceId (sockets g ws) \<noteq> None" by simp
  then show "deviceId (sockets (receive JSON_parse g ws remoteInfo frames) ws) \<noteq> None"
    by (rule receive_keeps_tag)
qed

text \<open>
  The amended C4 at chat requests on the paired socket 1 and on socket 2.
\<close>

theorem device_id_changes_only_by_pairing_witness:
  "deviceId (sockets demo_paired 1) = Some (JStr ''d1'') \<and>
   deviceId (sockets (onMessage chat_parse demo_ambient demo_paired 1 demo_remote ''x'') 1) =
     Some (JStr ''d1'') \<and>
   deviceId (sockets (onMessage chat_parse demo_ambient demo_paired 2 demo_remote ''x'') 1) =
     Some (JStr ''d1'') \<and>
   deviceId (sockets (receive chat_parse demo_paired 1 demo_remote
                        [(demo_ambient, ''x''), (demo_ambient, ''y'')]) 1) \<noteq> None"
proof -
  have h: "deviceId (sockets demo_paired 1) = Some (JStr ''d1'')"
    by (simp add: demo_paired_fields)
  have p: "chat_parse ''x'' = Inr chat_request"
    by (simp add: chat_parse_def)
  from device_id_changes_only_by_pairing[OF h, where JSON_parse=chat_parse and a=demo_ambient and remoteInfo=demo_remote
             and data="''x''" and ws'=2 and remoteInfo'=demo_remote and data'="''x''"
             and frames="[(demo_ambient, ''x''), (demo_ambient, ''y'')]"]
  show ?thesis
    using h by (simp only: p sum.case chat_request_facts simp_thms if_False)
qed

text \<open>
  C4 as stated fails: socket 1, paired as \<^verbatim>\<open>d1\<close>, sends a second connect request with
  the gateway token and device id \<^verbatim>\<open>d2\<close>, and is tagged \<^verbatim>\<open>d2\<close> from then on.
\<close>

theorem device_id_retagged:
  "deviceId (sockets demo_paired 1) = Some (JStr ''d1'') \<and>
   deviceId (sockets (snd (handleMessage demo_ambient demo_paired 1
                             (connect_request ''s3cr3t'' ''d2'') demo_remote)) 1) = Some (JStr ''d2'')"
  by (simp add: handleMessage_sockets connect_request_facts demo_paired_fields)

text \<open>
  C5. Sockets 1 and 2 both pair as \<^verbatim>\<open>d1\<close>, socket 2 last, so the registry maps \<^verbatim>\<open>d1\<close>
  to socket 2. Then socket 1 closes: \<^verbatim>\<open>_handleDisconnect\<close> deletes the entry of
  \<^verbatim>\<open>ws.deviceId\<close>, which is \<^verbatim>\<open>d1\<close>, and with it the pairing of socket 2. Socket 2 is still
  open and tagged \<^verbatim>\<open>d1\<close>, yet \<^verbatim>\<open>sendText('d1', ...)\<close> now returns false and writes
  nothing.
\<close>

theorem stale_close_removes_newer_pairing:
  "clients demo_repaired (JStr ''d1'') = Some 2 \<and>
   fst (onClose demo_repaired 1) = Returned \<and>
   clients (snd (onClose demo_repaired 1)) (JStr ''d1'') = None \<and>
   sockets (snd (onClose demo_repaired 1)) 2 = \<lparr>readyState = OPEN, deviceId = Some (JStr ''d1'')\<rparr> \<and>
   sendText demo_ambient (snd (onClose demo_repaired 1)) ''d1'' (Some (JStr ''hello'')) no_options =
     (False, log (snd (onClose demo_repaired 1)) ''Cannot send to d1: Not connected'')"
proof -
  have "deviceId (sockets demo_repaired 1) = Some (JStr ''d1'')"
    by (simp add: demo_repaired_fields)
  then have "fst (onClose demo_repaired 1) = Returned"
    by (rule onClose_returns)
  then show ?thesis
    by (simp add: onClose_fields demo_repaired_fields sendText_def)
qed

text \<open>
  C6, as amended. \<^verbatim>\<open>start()\<close> writes the line \<^verbatim>\<open>Gateway Token: <token>\<close> to the log whatever
  \<^verbatim>\<open>debug\<close> is. What \<^verbatim>\<open>debug\<close> gates is the dump of frames: with \<^verbatim>\<open>debug\<close> disabled,
  handling an inbound frame and \<^verbatim>\<open>sendText\<close> write no \<^verbatim>\<open>IN <\<close> or \<^verbatim>\<open>OUT >\<close> line.
\<close>

theorem token_logged_by_start:
  "''[RabbitGateway] Gateway Token: '' @ token g \<in> set (log_lines (trace (start g))) \<and>
   sublist (token g) (''[RabbitGateway] Gateway Token: '' @ token g) \<and>
   (\<not> debug g \<longrightarrow>
      dumps (trace (onMessage JSON_parse a g ws remoteInfo data)) = dumps (trace g) \<and>
      dumps (trace (snd (sendText a g device_id text options))) = dumps (trace g))"
proof (intro conjI impI)
  show "''[RabbitGateway] Gateway Token: '' @ token g \<in> set (log_lines (trace (start g)))"
    by (simp add: start_log)
  have "sublist (token g) (''[RabbitGateway] Gateway Token: '' @ token g @ [])"
    by (rule sublist_appendI)
  then show "sublist (token g) (''[RabbitGateway] Gateway Token: '' @ token g)"
    by simp
next
  assume nd: "\<not> debug g"
  show "dumps (trace (onMessage JSON_parse a g ws remoteInfo data)) = dumps (trace g)"
  proof (cases "JSON_parse data")
    case (Inl err)
    then show ?thesis by (simp add: onMessage_malformed)
  next
    case (Inr msg)
    then show ?thesis
      by (cases "fst (handleMessage a g ws msg remoteInfo)")
         (simp_all add: onMessage_parsed handleMessage_dumps[OF nd])
  qed
  show "dumps (trace (snd (sendText a g device_id text options))) = dumps (trace g)"
    using nd
    by (cases "clients g (JStr device_id)") (simp_all add: sendText_def sendJson_trace dumps_quiet)
qed

text \<open>
  The amended C6 at the concrete gateway, whose \<^verbatim>\<open>debug\<close> is off.
\<close>

theorem token_logged_by_start_witness:
  "\<not> debug demo_gateway \<and>
   ''[RabbitGateway] Gateway Token: s3cr3t'' \<in> set (log_lines (trace (start demo_gateway))) \<and>
   dumps (trace (onMessage chat_parse demo_ambient demo_gateway 1 demo_remote ''x'')) = [] \<and>
   dumps (trace (snd (sendText demo_ambient demo_gateway ''d1'' (Some (JStr ''hi'')) no_options))) = []"
proof -
  have h: "\<not> debug demo_gateway" by (simp add: demo_gateway_fields)
  from token_logged_by_start[of demo_gateway chat_parse demo_ambient 1 demo_remote "''x''" "''d1''"
             "Some (JStr ''hi'')" no_options] h
  show ?thesis by (simp add: demo_gateway_fields)
qed

text \<open>
  C6 as stated fails: the concrete gateway has \<^verbatim>\<open>debug\<close> disabled, and the second line
  that \<^verbatim>\<open>start()\<close> logs contains its token.
\<close>

theorem token_logged_debug_disabled:
  "\<not> debug demo_gateway \<and>
   log_lines (trace (start demo_gateway)) =
     [''[RabbitGateway] Rabbit Gateway listening on port 18789'',
      ''[RabbitGateway] Gateway Token: s3cr3t''] \<and>
   sublist (token demo_gateway) ''[RabbitGateway] Gateway Token: s3cr3t''"
proof -
  have "sublist ''s3cr3t'' (''[RabbitGateway] Gateway Token: '' @ ''s3cr3t'' @ [])"
    by (rule sublist_appendI)
  then show ?thesis
    by (simp add: start_log demo_gateway_fields)
qed

text \<open>
  C7. \<^verbatim>\<open>sendText\<close> to a device id that is not in the registry returns false, writes no
  frame on any connection, raises no notification and leaves registry and sockets
  unchanged; all it does is log \<^verbatim>\<open>Cannot send to <id>: Not connected\<close>.
\<close>

theorem sendText_unknown_device:
  assumes "clients g (JStr device_id) = None"
  shows "fst (sendText a g device_id text options) = False \<and>
         trace (snd (sendText a g device_id text options)) = trace g @
           [Console (Log (''[RabbitGateway] Cannot send to '' @ device_id @
                          '': Not connected''))] \<and>
         externals (trace (snd (sendText a g device_id text options))) = externals (trace g) \<and>
         clients (snd (sendText a g device_id text options)) = clients g \<and>
         sockets (snd (sendText a g device_id text options)) = sockets g"
  using assms by (simp add: sendText_def)

text \<open>
  C7 at the unknown id \<^verbatim>\<open>d9\<close>.
\<close>

theorem sendText_unknown_device_witness:
  "clients demo_gateway (JStr ''d9'') = None \<and>
   fst (sendText demo_ambient demo_gateway ''d9'' (Some (JStr ''hi'')) no_options) = False \<and>
   trace (snd (sendText demo_ambient demo_gateway ''d9'' (Some (JStr ''hi'')) no_options)) =
     [Console (Log ''[RabbitGateway] Cannot send to d9: Not connected'')] \<and>
   clients (snd (sendText demo_ambient demo_gateway ''d9'' (Some (JStr ''hi'')) no_options)) =
     clients demo_gateway"
proof -
  have h: "clients demo_gateway (JStr ''d9'') = None" by (simp add: demo_gateway_fields)
  from sendText_unknown_device[OF h, of demo_ambient "Some (JStr ''hi'')" no_options] h
  show ?thesis by (simp add: demo_gateway_fields)
qed



text \<open>
  C9. When \<^verbatim>\<open>JSON.parse\<close> rejects an inbound frame, the listener logs
  \<^verbatim>\<open>Error parsing message from <remote>: <message>\<close> and does nothing else: no frame, no
  notification, every socket as it was (the connection stays open), the registry as it
  was.
\<close>

theorem malformed_frame_soft_failure:
  assumes "JSON_parse data = Inl err"
  shows "trace (onMessage JSON_parse a g ws remoteInfo data) = trace g @
           [Console (Log (''[RabbitGateway] Error parsing message from '' @ remoteInfo @
                          '': '' @ err))] \<and>
         externals (trace (onMessage JSON_parse a g ws remoteInfo data)) = externals (trace g) \<and>
         sockets (onMessage JSON_parse a g ws remoteInfo data) = sockets g \<and>
         clients (onMessage JSON_parse a g ws remoteInfo data) = clients g"
  by (simp add: onMessage_malformed[where JSON_parse=JSON_parse and data=data, OF assms])

text \<open>
  C9 at the frame \<^verbatim>\<open>{\<close> on the paired socket 1.
\<close>

theorem malformed_frame_soft_failure_witness:
  "failing_parse ''{'' = Inl ''Unexpected end of JSON input'' \<and>
   trace (onMessage failing_parse demo_ambient demo_paired 1 demo_remote ''{'') = trace demo_paired @
     [Console (Log ''[RabbitGateway] Error parsing message from 10.0.0.2:5000: Unexpected end of JSON input'')] \<and>
   sockets (onMessage failing_parse demo_ambient demo_paired 1 demo_remote ''{'') = sockets demo_paired \<and>
   clients (onMessage failing_parse demo_ambient demo_paired 1 demo_remote ''{'') = clients demo_paired"
proof -
  have h: "failing_parse ''{'' = Inl ''Unexpected end of JSON input''"
    by (simp add: failing_parse_def)
  from malformed_frame_soft_failure[of failing_parse, OF h, of demo_ambient demo_paired 1 demo_remote] h
  show ?thesis by (simp add: demo_remote_def)
qed

text \<open>
  C10. \<^verbatim>\<open>sendText\<close> to a registered device id returns true whatever the state of the
  transport; when the mapped socket is not open, \<^verbatim>\<open>_sendJson\<close> does nothing at all, so
  the call returns true and the gateway is exactly as before: no frame, no log line.
\<close>

theorem sendText_true_when_not_open:
  assumes "clients g (JStr device_id) = Some ws"
  shows "fst (sendText a g device_id text options) = True \<and>
         (readyState (sockets g ws) \<noteq> OPEN \<longrightarrow> snd (sendText a g device_id text options) = g)"
  using assms by (simp add: sendText_def sendJson_def)

text \<open>
  C10 at the stale entry \<^verbatim>\<open>d1\<close> that socket 1 left behind: it paired as \<^verbatim>\<open>d1\<close>, then as
  \<^verbatim>\<open>d2\<close>, then closed, and only the entry of \<^verbatim>\<open>d2\<close> was deleted.
\<close>

theorem sendText_true_when_not_open_witness:
  "clients demo_stale (JStr ''d1'') = Some 1 \<and>
   readyState (sockets demo_stale 1) \<noteq> OPEN \<and>
   sendText demo_ambient demo_stale ''d1'' (Some (JStr ''hello'')) no_options = (True, demo_stale)"
proof -
  have h: "clients demo_stale (JStr ''d1'') = Some 1" by (simp add: demo_stale_fields)
  have c: "readyState (sockets demo_stale 1) \<noteq> OPEN" by (simp add: demo_stale_fields)
  from sendText_true_when_not_open[OF h, of demo_ambient "Some (JStr ''hello'')" no_options] h c
  show ?thesis by (simp add: prod_eq_iff)
qed

end
